theory Spec2Isabelle
  imports Complex_Main
begin

section \<open>Numbers\<close>

text \<open>
  The source is TypeScript; every quantity is a JavaScript \<open>number\<close>. The model reads
  a \<open>number\<close> as a \<^typ>\<open>real\<close>: \<open>+\<close>, \<open>-\<close>, \<open>*\<close>, \<open>/\<close>, \<open>Math.max\<close> and
  \<open>Math.min\<close> are the exact operations, so rounding, infinities and NaN are outside the
  model. A division of the source whose divisor is zero gives an infinity or NaN in
  JavaScript and \<open>0\<close> in HOL; every theorem below about a function with an unguarded
  division therefore assumes the divisor non-zero, and the functions that guard their
  divisions (\<open>getCoverScale\<close>, the zoom-multiplier effect) are modelled with the guard.
\<close>

section \<open>Geometry kernel (viewportUtils)\<close>

text \<open>
  \<open>{ translateX, translateY }\<close> is the result type of the translation functions and
  \<open>ViewTransform\<close> adds \<open>scale\<close> to it, so that \<open>{ ...t, translateX, translateY }\<close> and
  \<open>{ scale, ...clamped }\<close> are record updates and extensions.
\<close>

record Translation =
  translateX :: real
  translateY :: real

record ViewTransform = Translation +
  scale :: real

record ScaleLimits =
  minScale :: real
  maxScale :: real
  baseScale :: real

definition MIN_ZOOM_MULTIPLIER :: real where
  "MIN_ZOOM_MULTIPLIER = 0.4"

definition MAX_ZOOM_MULTIPLIER :: real where
  "MAX_ZOOM_MULTIPLIER = 3.0"

definition getCoverScale :: "real \<Rightarrow> real \<Rightarrow> real \<Rightarrow> real \<Rightarrow> real" where
  "getCoverScale viewportW viewportH imgW imgH =
     (if imgW \<le> 0 \<or> imgH \<le> 0 then 1
      else max (viewportW / imgW) (viewportH / imgH))"

definition getCenterTranslation ::
  "real \<Rightarrow> real \<Rightarrow> real \<Rightarrow> real \<Rightarrow> real \<Rightarrow> Translation" where
  "getCenterTranslation viewportW viewportH imgW imgH scl =
     (let scaledW = imgW * scl;
          scaledH = imgH * scl
      in \<lparr>translateX = (viewportW - scaledW) / 2,
          translateY = (viewportH - scaledH) / 2\<rparr>)"

definition clampTranslation ::
  "real \<Rightarrow> real \<Rightarrow> real \<Rightarrow> real \<Rightarrow> real \<Rightarrow> real \<Rightarrow> real \<Rightarrow> Translation" where
  "clampTranslation viewportW viewportH imgW imgH scl tX tY =
     (let rw = imgW * scl;
          rh = imgH * scl;
          minX = (if rw < viewportW then (viewportW - rw) / 2 else viewportW - rw);
          maxX = (if rw < viewportW then (viewportW - rw) / 2 else 0);
          minY = (if rh < viewportH then (viewportH - rh) / 2 else viewportH - rh);
          maxY = (if rh < viewportH then (viewportH - rh) / 2 else 0)
      in \<lparr>translateX = max minX (min maxX tX),
          translateY = max minY (min maxY tY)\<rparr>)"

definition getScaleLimits :: "real \<Rightarrow> real \<Rightarrow> real \<Rightarrow> real \<Rightarrow> ScaleLimits" where
  "getScaleLimits viewportW viewportH imgW imgH =
     (if viewportW \<le> 0 \<or> viewportH \<le> 0 \<or> imgW \<le> 0 \<or> imgH \<le> 0
      then \<lparr>minScale = 0.001, maxScale = 8, baseScale = 1\<rparr>
      else
        let base = getCoverScale viewportW viewportH imgW imgH
        in \<lparr>minScale = base * MIN_ZOOM_MULTIPLIER,
            maxScale = base * MAX_ZOOM_MULTIPLIER,
            baseScale = base\<rparr>)"

definition zoomAtPoint ::
  "real \<Rightarrow> real \<Rightarrow> real \<Rightarrow> real \<Rightarrow> real \<Rightarrow> real \<Rightarrow> real \<Rightarrow> real \<Rightarrow> real \<Rightarrow> real
     \<Rightarrow> Translation" where
  "zoomAtPoint viewportW viewportH imgW imgH scl newScale tX tY px py =
     (let factor = newScale / scl;
          tx = px - (px - tX) * factor;
          ty = py - (py - tY) * factor
      in clampTranslation viewportW viewportH imgW imgH newScale tx ty)"

section \<open>View-transform store (useImageViewTransform)\<close>

text \<open>
  The hook keeps the transform in React state and the last seen viewport and natural
  sizes in two refs. The model passes the hook's arguments (viewport and natural
  dimensions, \<open>isReady\<close>) to every operation and threads the state explicitly.
\<close>

record Size =
  width :: real
  height :: real

record StoreState =
  transform :: ViewTransform
  lastViewport :: Size
  lastNatural :: Size

text \<open>The initial state of the hook: \<open>useState\<close> and \<open>useRef\<close> initial values.\<close>

definition initialStore :: StoreState where
  "initialStore =
     \<lparr>transform = \<lparr>translateX = 0, translateY = 0, scale = 1\<rparr>,
      lastViewport = \<lparr>width = 0, height = 0\<rparr>,
      lastNatural = \<lparr>width = 0, height = 0\<rparr>\<rparr>"

text \<open>
  The body of the fit effect. \<open>transformRef.current\<close> is the transform of the render the
  effect belongs to, here \<open>transform st\<close>. The pan-centre computation divides by
  \<open>t.scale\<close> without a guard.
\<close>

definition fitEffect ::
  "bool \<Rightarrow> real \<Rightarrow> real \<Rightarrow> real \<Rightarrow> real \<Rightarrow> StoreState \<Rightarrow> StoreState" where
  "fitEffect isReady viewportWidth viewportHeight naturalWidth naturalHeight st =
     (if \<not> isReady \<or> viewportWidth \<le> 0 \<or> viewportHeight \<le> 0
         \<or> naturalWidth \<le> 0 \<or> naturalHeight \<le> 0
      then st
      else
        let oldW = width (lastViewport st);
            oldH = height (lastViewport st);
            oldNatW = width (lastNatural st);
            oldNatH = height (lastNatural st);
            viewportChanged =
              (oldW > 0 \<and> oldH > 0 \<and> (oldW \<noteq> viewportWidth \<or> oldH \<noteq> viewportHeight));
            naturalChanged = (oldNatW \<noteq> naturalWidth \<or> oldNatH \<noteq> naturalHeight);
            isResize = (viewportChanged \<and> \<not> naturalChanged);
            isFirstRun = (oldNatW = 0 \<and> oldNatH = 0);
            stored =
              (if isResize then
                 let oldBaseScale = getCoverScale oldW oldH naturalWidth naturalHeight;
                     newBaseScale =
                       getCoverScale viewportWidth viewportHeight naturalWidth naturalHeight;
                     maxS = maxScale
                       (getScaleLimits viewportWidth viewportHeight naturalWidth naturalHeight);
                     t = transform st;
                     zoomFactor = (if oldBaseScale > 0 then scale t / oldBaseScale else 1);
                     newScale = max newBaseScale (min maxS (newBaseScale * zoomFactor));
                     imgCenterX = (oldW / 2 - translateX t) / scale t;
                     imgCenterY = (oldH / 2 - translateY t) / scale t;
                     newTx = viewportWidth / 2 - imgCenterX * newScale;
                     newTy = viewportHeight / 2 - imgCenterY * newScale;
                     clamped = clampTranslation viewportWidth viewportHeight
                       naturalWidth naturalHeight newScale newTx newTy
                 in \<lparr>translateX = translateX clamped, translateY = translateY clamped,
                     scale = newScale\<rparr>
               else if naturalChanged \<or> isFirstRun then
                 let scl = getCoverScale viewportWidth viewportHeight naturalWidth naturalHeight;
                     c = getCenterTranslation viewportWidth viewportHeight
                       naturalWidth naturalHeight scl
                 in \<lparr>translateX = translateX c, translateY = translateY c, scale = scl\<rparr>
               else transform st)
        in \<lparr>transform = stored,
            lastViewport = \<lparr>width = viewportWidth, height = viewportHeight\<rparr>,
            lastNatural = \<lparr>width = naturalWidth, height = naturalHeight\<rparr>\<rparr>)"

text \<open>The \<open>clamp\<close> callback: only the translation of \<open>t\<close> is replaced.\<close>

definition clamp :: "real \<Rightarrow> real \<Rightarrow> real \<Rightarrow> real \<Rightarrow> ViewTransform \<Rightarrow> ViewTransform" where
  "clamp viewportWidth viewportHeight naturalWidth naturalHeight t =
     (let c = clampTranslation viewportWidth viewportHeight naturalWidth naturalHeight
                (scale t) (translateX t) (translateY t)
      in t\<lparr>translateX := translateX c, translateY := translateY c\<rparr>)"

text \<open>
  The state updaters. Each takes the previous transform \<open>prev\<close> and returns the
  transform that \<open>setTransform\<close> stores.
\<close>

definition panBy ::
  "real \<Rightarrow> real \<Rightarrow> real \<Rightarrow> real \<Rightarrow> real \<Rightarrow> real \<Rightarrow> ViewTransform \<Rightarrow> ViewTransform" where
  "panBy viewportWidth viewportHeight naturalWidth naturalHeight deltaX deltaY prev =
     clamp viewportWidth viewportHeight naturalWidth naturalHeight
       (prev\<lparr>translateX := translateX prev + deltaX,
             translateY := translateY prev + deltaY\<rparr>)"

text \<open>An omitted anchor coordinate (\<open>anchorPx ?? viewportWidth / 2\<close>) is \<open>None\<close>.\<close>

definition applyScale ::
  "real \<Rightarrow> real \<Rightarrow> real \<Rightarrow> real \<Rightarrow> real \<Rightarrow> real option \<Rightarrow> real option
     \<Rightarrow> ViewTransform \<Rightarrow> ViewTransform" where
  "applyScale viewportWidth viewportHeight naturalWidth naturalHeight newScale
     anchorPx anchorPy prev =
     (let lim = getScaleLimits viewportWidth viewportHeight naturalWidth naturalHeight;
          clampedScale = max (minScale lim) (min (maxScale lim) newScale);
          px = (case anchorPx of Some p \<Rightarrow> p | None \<Rightarrow> viewportWidth / 2);
          py = (case anchorPy of Some p \<Rightarrow> p | None \<Rightarrow> viewportHeight / 2);
          z = zoomAtPoint viewportWidth viewportHeight naturalWidth naturalHeight
                (scale prev) clampedScale (translateX prev) (translateY prev) px py
      in clamp viewportWidth viewportHeight naturalWidth naturalHeight
           \<lparr>translateX = translateX z, translateY = translateY z, scale = clampedScale\<rparr>)"

text \<open>
  \<open>zoomAt\<close> reads the scale from \<open>transformRef.current\<close> (\<open>cur\<close>, the transform of the
  last render) and then runs the \<open>applyScale\<close> updater on the previous state \<open>prev\<close>.
\<close>

definition zoomAt ::
  "real \<Rightarrow> real \<Rightarrow> real \<Rightarrow> real \<Rightarrow> real \<Rightarrow> real \<Rightarrow> real
     \<Rightarrow> ViewTransform \<Rightarrow> ViewTransform \<Rightarrow> ViewTransform" where
  "zoomAt viewportWidth viewportHeight naturalWidth naturalHeight viewportPx viewportPy
     deltaScale cur prev =
     (let lim = getScaleLimits viewportWidth viewportHeight naturalWidth naturalHeight;
          proposedScale = scale cur * deltaScale;
          clampedScale = max (minScale lim) (min (maxScale lim) proposedScale)
      in applyScale viewportWidth viewportHeight naturalWidth naturalHeight clampedScale
           (Some viewportPx) (Some viewportPy) prev)"

definition setTransformDirect ::
  "real \<Rightarrow> real \<Rightarrow> real \<Rightarrow> real \<Rightarrow> ViewTransform \<Rightarrow> ViewTransform" where
  "setTransformDirect viewportWidth viewportHeight naturalWidth naturalHeight t =
     clamp viewportWidth viewportHeight naturalWidth naturalHeight t"

section \<open>Crop control (imageCropControl)\<close>

text \<open>
  \<open>Crop\<close> of react-image-crop is \<open>{ unit, x, y, width, height }\<close>; \<open>PixelCrop\<close> is a
  \<open>Crop\<close> whose unit is \<open>"px"\<close>. The fields \<open>x\<close> and \<open>y\<close> are called \<open>xpos\<close> and
  \<open>ypos\<close> here. The argument of \<open>viewportCropToNaturalPx\<close> has no unit: it is a \<open>Rect\<close>.
\<close>

datatype CropUnit = Px | Percent

record Rect = Size +
  xpos :: real
  ypos :: real

record Crop = Rect +
  unit :: CropUnit

definition ZOOM_MULTIPLIER_MIN :: real where
  "ZOOM_MULTIPLIER_MIN = 0.4"

definition ZOOM_MULTIPLIER_MAX :: real where
  "ZOOM_MULTIPLIER_MAX = 3.0"

definition defaultViewportCrop200 :: "real \<Rightarrow> real \<Rightarrow> Crop" where
  "defaultViewportCrop200 viewportW viewportH =
     (let defaultW = min 200 viewportW;
          defaultH = min 200 viewportH;
          x = (viewportW - defaultW) / 2;
          y = (viewportH - defaultH) / 2
      in \<lparr>width = defaultW, height = defaultH, xpos = x, ypos = y, unit = Px\<rparr>)"

definition viewportCropToNaturalPx ::
  "Rect \<Rightarrow> real \<Rightarrow> real \<Rightarrow> real \<Rightarrow> real \<Rightarrow> real \<Rightarrow> Crop" where
  "viewportCropToNaturalPx viewportCrop scl tx ty naturalW naturalH =
     (let ix = (xpos viewportCrop - tx) / scl;
          iy = (ypos viewportCrop - ty) / scl;
          iw = width viewportCrop / scl;
          ih = height viewportCrop / scl;
          x1 = max 0 (min ix naturalW);
          y1 = max 0 (min iy naturalH);
          x2 = max x1 (min (ix + iw) naturalW);
          y2 = max y1 (min (iy + ih) naturalH)
      in \<lparr>width = max 0 (x2 - x1), height = max 0 (y2 - y1),
          xpos = x1, ypos = y1, unit = Px\<rparr>)"

definition imageCropToViewportPx ::
  "Crop \<Rightarrow> real \<Rightarrow> real \<Rightarrow> real \<Rightarrow> real \<Rightarrow> real \<Rightarrow> real \<Rightarrow> real \<Rightarrow> Crop" where
  "imageCropToViewportPx c naturalW naturalH scl tx ty viewportW viewportH =
     (let imgX = (if unit c = Percent then (xpos c / 100) * naturalW else xpos c);
          imgY = (if unit c = Percent then (ypos c / 100) * naturalH else ypos c);
          imgW = (if unit c = Percent then (width c / 100) * naturalW else width c);
          imgH = (if unit c = Percent then (height c / 100) * naturalH else height c)
      in \<lparr>width = imgW * scl, height = imgH * scl,
          xpos = imgX * scl + tx, ypos = imgY * scl + ty, unit = Px\<rparr>)"

text \<open>
  The zoom-multiplier sync effect. \<open>isTransformReady\<close> is computed by the component
  from the two sizes; \<open>hasHandler\<close> says whether \<open>props.onZoomMultiplierChange\<close> is
  set. The result is the value passed to the handler, \<open>None\<close> when the effect returns
  without publishing.
\<close>

definition isTransformReady :: "Size \<Rightarrow> Size \<Rightarrow> bool" where
  "isTransformReady naturalSize viewportSize \<longleftrightarrow>
     width naturalSize > 0 \<and> height naturalSize > 0
     \<and> width viewportSize > 0 \<and> height viewportSize > 0"

definition zoomMultiplierSync :: "bool \<Rightarrow> Size \<Rightarrow> Size \<Rightarrow> ViewTransform \<Rightarrow> real option" where
  "zoomMultiplierSync hasHandler viewportSize naturalSize t =
     (if \<not> isTransformReady naturalSize viewportSize \<or> \<not> hasHandler then None
      else
        let base = baseScale (getScaleLimits (width viewportSize) (height viewportSize)
                     (width naturalSize) (height naturalSize))
        in if base \<le> 0 then None
           else
             let raw = scale t / base
             in Some (max ZOOM_MULTIPLIER_MIN (min ZOOM_MULTIPLIER_MAX raw)))"

text \<open>
  The crop-init effect. The state it reads and writes: the \<open>crop\<close> and
  \<open>completedCrop\<close> React states and the two refs. \<open>defaultCrop\<close> is the host-supplied
  default, \<open>None\<close> when the host gives none.
\<close>

record CropState =
  crop :: "Crop option"
  completedCrop :: "Crop option"
  viewportCropInitialized :: bool
  cropIsViewportSpace :: bool

definition cropInitEffect ::
  "bool \<Rightarrow> bool \<Rightarrow> Size \<Rightarrow> Crop option \<Rightarrow> Size \<Rightarrow> ViewTransform \<Rightarrow> CropState \<Rightarrow> CropState" where
  "cropInitEffect usePanZoom isCroppingActive viewportSize defaultCrop naturalSize t st =
     (if \<not> usePanZoom \<or> \<not> isCroppingActive
         \<or> width viewportSize \<le> 0 \<or> height viewportSize \<le> 0
      then (if \<not> isCroppingActive then st\<lparr>viewportCropInitialized := False\<rparr> else st)
      else if crop st \<noteq> None then st
      else
        let fallback =
              (if defaultCrop \<noteq> None \<and> width (the defaultCrop) > 0
                  \<and> height (the defaultCrop) > 0
               then imageCropToViewportPx (the defaultCrop)
                      (width naturalSize) (height naturalSize)
                      (scale t) (translateX t) (translateY t)
                      (width viewportSize) (height viewportSize)
               else if completedCrop st \<noteq> None \<and> width (the (completedCrop st)) > 0
                  \<and> height (the (completedCrop st)) > 0
               then
                 let s = scale t;
                     tx = translateX t;
                     ty = translateY t;
                     cc = the (completedCrop st)
                 in \<lparr>width = width cc * s, height = height cc * s,
                     xpos = xpos cc * s + tx, ypos = ypos cc * s + ty, unit = Px\<rparr>
               else defaultViewportCrop200 (width viewportSize) (height viewportSize))
        in st\<lparr>viewportCropInitialized := True, cropIsViewportSpace := True,
              crop := Some fallback\<rparr>)"

section \<open>Properties\<close>

text \<open>
  The cover condition on one axis: a scaled image at least as long as the viewport
  spans it with no gap; a shorter one is centred.
\<close>

definition coverAxis :: "real \<Rightarrow> real \<Rightarrow> real \<Rightarrow> real \<Rightarrow> bool" where
  "coverAxis viewportLen imgLen scl t \<longleftrightarrow>
     (if imgLen * scl \<ge> viewportLen
      then viewportLen - imgLen * scl \<le> t \<and> t \<le> 0
      else t = (viewportLen - imgLen * scl) / 2)"

definition coverCondition :: "real \<Rightarrow> real \<Rightarrow> real \<Rightarrow> real \<Rightarrow> ViewTransform \<Rightarrow> bool" where
  "coverCondition viewportW viewportH imgW imgH t \<longleftrightarrow>
     coverAxis viewportW imgW (scale t) (translateX t)
     \<and> coverAxis viewportH imgH (scale t) (translateY t)"

text \<open>
  A viewport-space rectangle that lies within the rendered image: its size is not
  negative and both corners are inside \<open>[tx, tx + naturalW * scale]\<close> and
  \<open>[ty, ty + naturalH * scale]\<close>.
\<close>

definition withinRenderedImage :: "Rect \<Rightarrow> real \<Rightarrow> real \<Rightarrow> real \<Rightarrow> real \<Rightarrow> real \<Rightarrow> bool" where
  "withinRenderedImage r scl tx ty naturalW naturalH \<longleftrightarrow>
     0 \<le> width r \<and> 0 \<le> height r
     \<and> tx \<le> xpos r \<and> xpos r + width r \<le> tx + naturalW * scl
     \<and> ty \<le> ypos r \<and> ypos r + height r \<le> ty + naturalH * scl"

section \<open>The cover invariant\<close>

lemma clampTranslation_coverX:
  "coverAxis viewportW imgW scl
     (translateX (clampTranslation viewportW viewportH imgW imgH scl tX tY))"
  by (simp add: clampTranslation_def coverAxis_def Let_def)

lemma clampTranslation_coverY:
  "coverAxis viewportH imgH scl
     (translateY (clampTranslation viewportW viewportH imgW imgH scl tX tY))"
  by (simp add: clampTranslation_def coverAxis_def Let_def)

lemma clamp_scale: "scale (clamp viewportW viewportH imgW imgH t) = scale t"
  by (simp add: clamp_def Let_def)

lemma clamp_cover:
  "coverCondition viewportW viewportH imgW imgH (clamp viewportW viewportH imgW imgH t)"
  unfolding coverCondition_def clamp_scale
  by (simp add: clamp_def Let_def clampTranslation_coverX clampTranslation_coverY)

text \<open>
  C1. For positive viewport and image dimensions and a positive scale, the translation
  returned by \<open>clampTranslation\<close> satisfies the cover condition on both axes, and so
  does the transform stored by \<open>panBy\<close>, \<open>applyScale\<close>, \<open>zoomAt\<close> and
  \<open>setTransformDirect\<close>, each with respect to the scale it stores.
\<close>

theorem cover_invariant:
  assumes "0 < viewportW" "0 < viewportH" "0 < imgW" "0 < imgH" "0 < scl"
    and "0 < scale prev" "0 < scale t"
  shows "coverAxis viewportW imgW scl
           (translateX (clampTranslation viewportW viewportH imgW imgH scl tX tY))
       \<and> coverAxis viewportH imgH scl
           (translateY (clampTranslation viewportW viewportH imgW imgH scl tX tY))
       \<and> coverCondition viewportW viewportH imgW imgH
           (panBy viewportW viewportH imgW imgH deltaX deltaY prev)
       \<and> coverCondition viewportW viewportH imgW imgH
           (applyScale viewportW viewportH imgW imgH newScale anchorPx anchorPy prev)
       \<and> coverCondition viewportW viewportH imgW imgH
           (zoomAt viewportW viewportH imgW imgH viewportPx viewportPy deltaScale cur prev)
       \<and> coverCondition viewportW viewportH imgW imgH
           (setTransformDirect viewportW viewportH imgW imgH t)"
  by (simp add: clampTranslation_coverX clampTranslation_coverY clamp_cover
      panBy_def applyScale_def zoomAt_def setTransformDirect_def Let_def)

theorem cover_invariant_witness:
  "0 < (450::real) \<and> 0 < (350::real) \<and> 0 < (1920::real) \<and> 0 < (1080::real)
   \<and> 0 < (1 / 2 :: real)
   \<and> 0 < scale \<lparr>translateX = - 100, translateY = - 50, scale = 1 / 2\<rparr>
   \<and> coverAxis 450 1920 (1 / 2)
        (translateX (clampTranslation 450 350 1920 1080 (1 / 2) 100 (- 500)))
   \<and> coverAxis 350 1080 (1 / 2)
        (translateY (clampTranslation 450 350 1920 1080 (1 / 2) 100 (- 500)))
   \<and> coverCondition 450 350 1920 1080
        (panBy 450 350 1920 1080 30 (- 40)
           \<lparr>translateX = - 100, translateY = - 50, scale = 1 / 2\<rparr>)
   \<and> coverCondition 450 350 1920 1080
        (applyScale 450 350 1920 1080 (3 / 4) None None
           \<lparr>translateX = - 100, translateY = - 50, scale = 1 / 2\<rparr>)
   \<and> coverCondition 450 350 1920 1080
        (zoomAt 450 350 1920 1080 10 20 (11 / 10)
           \<lparr>translateX = - 100, translateY = - 50, scale = 1 / 2\<rparr>
           \<lparr>translateX = - 100, translateY = - 50, scale = 1 / 2\<rparr>)
   \<and> coverCondition 450 350 1920 1080
        (setTransformDirect 450 350 1920 1080
           \<lparr>translateX = - 100, translateY = - 50, scale = 1 / 2\<rparr>)"
  using cover_invariant [where viewportW = 450 and viewportH = 350 and imgW = 1920
      and imgH = 1080 and scl = "1 / 2" and tX = 100 and tY = "- 500"
      and prev = "\<lparr>translateX = - 100, translateY = - 50, scale = 1 / 2\<rparr>"
      and t = "\<lparr>translateX = - 100, translateY = - 50, scale = 1 / 2\<rparr>"
      and cur = "\<lparr>translateX = - 100, translateY = - 50, scale = 1 / 2\<rparr>"
      and deltaX = 30 and deltaY = "- 40" and newScale = "3 / 4"
      and anchorPx = None and anchorPy = None
      and viewportPx = 10 and viewportPy = 20 and deltaScale = "11 / 10"]
  by simp

section \<open>Idempotence of clamping\<close>

text \<open>
  C10. \<open>clampTranslation\<close> is idempotent for all arguments: clamping its own output
  again, with the same viewport, image and scale, returns that output; hence the
  store's \<open>clamp\<close> never moves a transform it has already clamped.
\<close>

theorem clampTranslation_idempotent:
  "clampTranslation viewportW viewportH imgW imgH scl
     (translateX (clampTranslation viewportW viewportH imgW imgH scl tX tY))
     (translateY (clampTranslation viewportW viewportH imgW imgH scl tX tY))
   = clampTranslation viewportW viewportH imgW imgH scl tX tY
   \<and> clamp viewportW viewportH imgW imgH (clamp viewportW viewportH imgW imgH t)
     = clamp viewportW viewportH imgW imgH t"
  by (simp add: clamp_def clampTranslation_def Let_def)

section \<open>Anchor-preserving zoom\<close>

text \<open>
  C3. For a transform with positive old scale, any anchor \<open>(px, py)\<close> and any positive
  new scale, if the final \<open>clampTranslation\<close> step leaves the computed translation
  unchanged, then \<open>zoomAtPoint\<close> keeps the image point under the anchor:
  \<open>(px - tx') / newScale = (px - tx) / oldScale\<close>, and the same for \<open>y\<close>. The
  equalities are exact in real arithmetic.
\<close>

theorem zoomAtPoint_anchor:
  assumes "0 < scl" and "0 < newScale"
    and "clampTranslation viewportW viewportH imgW imgH newScale
           (px - (px - tX) * (newScale / scl)) (py - (py - tY) * (newScale / scl))
         = \<lparr>translateX = px - (px - tX) * (newScale / scl),
            translateY = py - (py - tY) * (newScale / scl)\<rparr>"
  shows "(px - translateX (zoomAtPoint viewportW viewportH imgW imgH scl newScale tX tY px py))
           / newScale = (px - tX) / scl
       \<and> (py - translateY (zoomAtPoint viewportW viewportH imgW imgH scl newScale tX tY px py))
           / newScale = (py - tY) / scl"
  using assms by (simp add: zoomAtPoint_def Let_def)

theorem zoomAtPoint_anchor_witness:
  "0 < (1::real) \<and> 0 < (2::real)
   \<and> clampTranslation 100 100 100 100 2
        (50 - (50 - 0) * (2 / 1)) (50 - (50 - 0) * (2 / 1))
      = \<lparr>translateX = 50 - (50 - 0) * (2 / 1), translateY = 50 - (50 - 0) * (2 / 1)\<rparr>
   \<and> (50 - translateX (zoomAtPoint 100 100 100 100 1 2 0 0 50 50)) / 2 = (50 - 0) / 1
   \<and> (50 - translateY (zoomAtPoint 100 100 100 100 1 2 0 0 50 50)) / 2 = (50 - 0) / 1"
proof -
  have c: "clampTranslation 100 100 100 100 2
        (50 - (50 - 0) * (2 / 1)) (50 - (50 - 0) * (2 / 1))
      = \<lparr>translateX = 50 - (50 - 0) * (2 / 1), translateY = 50 - (50 - 0) * (2 / 1)\<rparr>"
    by (simp add: clampTranslation_def Let_def)
  show ?thesis
    using c zoomAtPoint_anchor [where scl = 1 and newScale = 2 and viewportW = 100
        and viewportH = 100 and imgW = 100 and imgH = 100 and px = 50 and py = 50
        and tX = 0 and tY = 0, OF _ _ c]
    by simp
qed

text \<open>
  When the clamp does alter the translation the anchor may shift: zooming out from
  scale 2 to scale 1 about the viewport origin, with the image at \<open>(-100, -100)\<close>,
  the computed translation \<open>-50\<close> is clamped to \<open>0\<close> and the image point under the
  anchor moves from \<open>50\<close> to \<open>0\<close>.
\<close>

lemma zoomAtPoint_anchor_shift_example:
  "clampTranslation 100 100 100 100 1 (0 - (0 - (- 100)) * (1 / 2)) (0 - (0 - (- 100)) * (1 / 2))
     \<noteq> \<lparr>translateX = 0 - (0 - (- 100)) * (1 / 2), translateY = 0 - (0 - (- 100)) * (1 / 2)\<rparr>
   \<and> (0 - translateX (zoomAtPoint 100 100 100 100 2 1 (- 100) (- 100) 0 0)) / 1 = 0
   \<and> (0 - (- 100)) / 2 = (50::real)"
  by (simp add: zoomAtPoint_def clampTranslation_def Let_def)

section \<open>Resize reconciliation\<close>

lemma getCoverScale_pos:
  assumes "0 < viewportW" "0 < viewportH" "0 < imgW" "0 < imgH"
  shows "0 < getCoverScale viewportW viewportH imgW imgH"
  using assms by (simp add: getCoverScale_def less_max_iff_disj)

text \<open>
  C4. On a viewport-only resize (the effect runs ready and with positive dimensions, the
  natural size equals the last one seen, the last viewport size is positive and differs
  from the new one), a scale of \<open>k * baseScale_old\<close> before the resize becomes
  \<open>clamp(k * baseScale_new, baseScale_new, maxScale_new)\<close>, where
  \<open>clamp(v, lo, hi) = max lo (min hi v)\<close>, \<open>baseScale_new\<close> is the cover scale of the new
  viewport and \<open>maxScale_new\<close> the maximum of its scale limits.
\<close>

theorem resize_preserves_zoom:
  assumes "isReady"
    and "0 < viewportWidth" "0 < viewportHeight" "0 < naturalWidth" "0 < naturalHeight"
    and "lastNatural st = \<lparr>width = naturalWidth, height = naturalHeight\<rparr>"
    and "lastViewport st = \<lparr>width = oldW, height = oldH\<rparr>"
    and "0 < oldW" "0 < oldH"
    and "oldW \<noteq> viewportWidth \<or> oldH \<noteq> viewportHeight"
    and "scale (transform st) = k * getCoverScale oldW oldH naturalWidth naturalHeight"
  shows "scale (transform (fitEffect isReady viewportWidth viewportHeight
                             naturalWidth naturalHeight st))
         = max (getCoverScale viewportWidth viewportHeight naturalWidth naturalHeight)
             (min (maxScale (getScaleLimits viewportWidth viewportHeight
                               naturalWidth naturalHeight))
                  (k * getCoverScale viewportWidth viewportHeight naturalWidth naturalHeight))"
proof -
  have "0 < getCoverScale oldW oldH naturalWidth naturalHeight"
    using assms by (simp add: getCoverScale_pos)
  then show ?thesis
    using assms by (simp add: fitEffect_def Let_def mult.commute)
qed

theorem resize_preserves_zoom_witness:
  "0 < (900::real) \<and> 0 < (700::real) \<and> 0 < (1920::real) \<and> 0 < (1080::real)
   \<and> 0 < (450::real) \<and> 0 < (350::real) \<and> (450::real) \<noteq> 900
   \<and> 35 / 54 = 2 * getCoverScale 450 350 1920 1080
   \<and> scale (transform (fitEffect True 900 700 1920 1080
        \<lparr>transform = \<lparr>translateX = - 200, translateY = - 100, scale = 35 / 54\<rparr>,
         lastViewport = \<lparr>width = 450, height = 350\<rparr>,
         lastNatural = \<lparr>width = 1920, height = 1080\<rparr>\<rparr>))
     = max (getCoverScale 900 700 1920 1080)
         (min (maxScale (getScaleLimits 900 700 1920 1080))
              (2 * getCoverScale 900 700 1920 1080))
   \<and> max (getCoverScale 900 700 1920 1080)
         (min (maxScale (getScaleLimits 900 700 1920 1080))
              (2 * getCoverScale 900 700 1920 1080)) = 35 / 27"
proof -
  have k: "35 / 54 = 2 * getCoverScale 450 350 1920 1080"
    by (simp add: getCoverScale_def)
  have v: "max (getCoverScale 900 700 1920 1080)
         (min (maxScale (getScaleLimits 900 700 1920 1080))
              (2 * getCoverScale 900 700 1920 1080)) = 35 / 27"
    by (simp add: getCoverScale_def getScaleLimits_def Let_def MAX_ZOOM_MULTIPLIER_def
        MIN_ZOOM_MULTIPLIER_def)
  show ?thesis
    using k v resize_preserves_zoom [where isReady = True and viewportWidth = 900
        and viewportHeight = 700 and naturalWidth = 1920 and naturalHeight = 1080
        and oldW = 450 and oldH = 350 and k = 2
        and st = "\<lparr>transform = \<lparr>translateX = - 200, translateY = - 100, scale = 35 / 54\<rparr>,
           lastViewport = \<lparr>width = 450, height = 350\<rparr>,
           lastNatural = \<lparr>width = 1920, height = 1080\<rparr>\<rparr>"]
    by simp
qed

section \<open>Scale limits\<close>

text \<open>
  C5. For strictly positive viewport and image dimensions \<open>getScaleLimits\<close> returns
  \<open>baseScale = max (viewportW / imgW) (viewportH / imgH)\<close>, \<open>minScale = baseScale * 0.4\<close>
  and \<open>maxScale = baseScale * 3.0\<close>, with \<open>maxScale > minScale\<close> strictly. The function
  is pure, so this holds at every recomputation, also after a resize.
\<close>

theorem scale_limits_positive:
  assumes "0 < viewportW" "0 < viewportH" "0 < imgW" "0 < imgH"
  shows "baseScale (getScaleLimits viewportW viewportH imgW imgH)
           = max (viewportW / imgW) (viewportH / imgH)
       \<and> minScale (getScaleLimits viewportW viewportH imgW imgH)
           = baseScale (getScaleLimits viewportW viewportH imgW imgH) * 0.4
       \<and> maxScale (getScaleLimits viewportW viewportH imgW imgH)
           = baseScale (getScaleLimits viewportW viewportH imgW imgH) * 3.0
       \<and> maxScale (getScaleLimits viewportW viewportH imgW imgH)
           > minScale (getScaleLimits viewportW viewportH imgW imgH)"
proof -
  have "0 < max (viewportW / imgW) (viewportH / imgH)"
    using assms by (simp add: less_max_iff_disj)
  then show ?thesis
    using assms
    by (simp add: getScaleLimits_def getCoverScale_def Let_def
        MIN_ZOOM_MULTIPLIER_def MAX_ZOOM_MULTIPLIER_def)
qed

theorem scale_limits_positive_witness:
  "0 < (450::real) \<and> 0 < (350::real) \<and> 0 < (1920::real) \<and> 0 < (1080::real)
   \<and> baseScale (getScaleLimits 450 350 1920 1080) = max (450 / 1920) (350 / 1080)
   \<and> minScale (getScaleLimits 450 350 1920 1080)
       = baseScale (getScaleLimits 450 350 1920 1080) * 0.4
   \<and> maxScale (getScaleLimits 450 350 1920 1080)
       = baseScale (getScaleLimits 450 350 1920 1080) * 3.0
   \<and> maxScale (getScaleLimits 450 350 1920 1080) > minScale (getScaleLimits 450 350 1920 1080)"
  using scale_limits_positive [of 450 350 1920 1080] by simp

section \<open>Degenerate dimensions\<close>

text \<open>
  C6. When any viewport or image dimension is \<open>\<le> 0\<close> (zero included),
  \<open>getScaleLimits\<close> returns the constants \<open>minScale = 0.001\<close>, \<open>maxScale = 8\<close>,
  \<open>baseScale = 1\<close>: finite, strictly positive and computed without a division; and
  \<open>getCoverScale\<close> returns \<open>1\<close> when either image dimension is \<open>\<le> 0\<close>. Consequently
  no such input produces a scale of \<open>0\<close> in the store: the fit effect leaves the state
  unchanged, and the scale stored by \<open>applyScale\<close> and \<open>zoomAt\<close>, which is clamped to
  these limits, is strictly positive for every requested scale.
\<close>

theorem degenerate_dimensions_safe:
  assumes "viewportW \<le> 0 \<or> viewportH \<le> 0 \<or> imgW \<le> 0 \<or> imgH \<le> 0"
  shows "getScaleLimits viewportW viewportH imgW imgH
           = \<lparr>minScale = 0.001, maxScale = 8, baseScale = 1\<rparr>
       \<and> 0 < minScale (getScaleLimits viewportW viewportH imgW imgH)
       \<and> 0 < maxScale (getScaleLimits viewportW viewportH imgW imgH)
       \<and> 0 < baseScale (getScaleLimits viewportW viewportH imgW imgH)
       \<and> (imgW \<le> 0 \<or> imgH \<le> 0 \<longrightarrow> getCoverScale viewportW viewportH imgW imgH = 1)
       \<and> fitEffect isReady viewportW viewportH imgW imgH st = st
       \<and> 0 < scale (applyScale viewportW viewportH imgW imgH newScale anchorPx anchorPy prev)
       \<and> 0 < scale (zoomAt viewportW viewportH imgW imgH viewportPx viewportPy deltaScale
                      cur prev)"
proof -
  have l: "getScaleLimits viewportW viewportH imgW imgH
        = \<lparr>minScale = 0.001, maxScale = 8, baseScale = 1\<rparr>"
    using assms by (simp add: getScaleLimits_def)
  have c: "imgW \<le> 0 \<or> imgH \<le> 0 \<longrightarrow> getCoverScale viewportW viewportH imgW imgH = 1"
    by (simp add: getCoverScale_def)
  have f: "fitEffect isReady viewportW viewportH imgW imgH st = st"
    using assms by (simp add: fitEffect_def)
  have a: "0 < scale (applyScale viewportW viewportH imgW imgH s ax ay prev)" for s ax ay
    by (simp add: applyScale_def Let_def clamp_scale l less_max_iff_disj)
  have z: "0 < scale (zoomAt viewportW viewportH imgW imgH viewportPx viewportPy deltaScale
                      cur prev)"
    by (simp add: zoomAt_def Let_def a)
  show ?thesis
    using c f a z by (simp add: l)
qed

theorem degenerate_dimensions_safe_witness:
  "getScaleLimits 0 350 0 1080 = \<lparr>minScale = 0.001, maxScale = 8, baseScale = 1\<rparr>
   \<and> 0 < minScale (getScaleLimits 0 350 0 1080)
   \<and> 0 < maxScale (getScaleLimits 0 350 0 1080)
   \<and> 0 < baseScale (getScaleLimits 0 350 0 1080)
   \<and> getCoverScale 0 350 0 1080 = 1
   \<and> fitEffect True 0 350 0 1080 initialStore = initialStore
   \<and> 0 < scale (applyScale 0 350 0 1080 0 None None (transform initialStore))
   \<and> 0 < scale (zoomAt 0 350 0 1080 10 20 0 (transform initialStore)
                  (transform initialStore))"
  using degenerate_dimensions_safe [where viewportW = 0 and viewportH = 350 and imgW = 0
      and imgH = 1080 and isReady = True and st = initialStore and newScale = 0
      and anchorPx = None and anchorPy = None and prev = "transform initialStore"
      and cur = "transform initialStore" and viewportPx = 10 and viewportPy = 20
      and deltaScale = 0]
  by simp

section \<open>Coordinate bridge round trip\<close>

lemma inverse_axis:
  fixes scl :: real
  assumes "0 < scl" "0 \<le> w" "t \<le> p" "p + w \<le> t + n * scl"
  shows "max 0 (min ((p - t) / scl) n) = (p - t) / scl"
    and "max ((p - t) / scl) (min ((p - t) / scl + w / scl) n) = (p - t) / scl + w / scl"
proof -
  have a: "0 \<le> (p - t) / scl" using assms by simp
  have b: "0 \<le> w / scl" using assms by simp
  have "(p - t) / scl + w / scl = (p + w - t) / scl"
    by (simp add: add_divide_distrib diff_divide_distrib)
  also have "\<dots> \<le> n"
    using assms by (simp add: pos_divide_le_eq)
  finally have c: "(p - t) / scl + w / scl \<le> n" .
  from a b c show "max 0 (min ((p - t) / scl) n) = (p - t) / scl" by simp
  from a b c show "max ((p - t) / scl) (min ((p - t) / scl + w / scl) n) = (p - t) / scl + w / scl"
    by simp
qed

text \<open>
  C7. For a transform with positive scale and a viewport-space rectangle \<open>r\<close> that lies
  within the rendered image (so no clamping engages), \<open>imageCropToViewportPx\<close> applied to
  \<open>viewportCropToNaturalPx\<close> of \<open>r\<close> returns \<open>r\<close> (as a \<open>"px"\<close> crop). The equality is
  exact in real arithmetic.
\<close>

theorem crop_roundtrip:
  assumes "0 < scl" and "withinRenderedImage r scl tx ty naturalW naturalH"
  shows "imageCropToViewportPx (viewportCropToNaturalPx r scl tx ty naturalW naturalH)
           naturalW naturalH scl tx ty viewportW viewportH
         = \<lparr>width = width r, height = height r, xpos = xpos r, ypos = ypos r, unit = Px\<rparr>"
proof -
  have x: "max 0 (min ((xpos r - tx) / scl) naturalW) = (xpos r - tx) / scl"
    "max ((xpos r - tx) / scl) (min ((xpos r - tx) / scl + width r / scl) naturalW)
       = (xpos r - tx) / scl + width r / scl"
    using assms inverse_axis [of scl "width r" tx "xpos r" naturalW]
    by (simp_all add: withinRenderedImage_def)
  have y: "max 0 (min ((ypos r - ty) / scl) naturalH) = (ypos r - ty) / scl"
    "max ((ypos r - ty) / scl) (min ((ypos r - ty) / scl + height r / scl) naturalH)
       = (ypos r - ty) / scl + height r / scl"
    using assms inverse_axis [of scl "height r" ty "ypos r" naturalH]
    by (simp_all add: withinRenderedImage_def)
  have p: "0 \<le> width r / scl" "0 \<le> height r / scl"
    using assms by (simp_all add: withinRenderedImage_def)
  show ?thesis
    using assms(1) p
    by (simp add: imageCropToViewportPx_def viewportCropToNaturalPx_def Let_def x y)
qed

theorem crop_roundtrip_witness:
  "0 < (1::real)
   \<and> withinRenderedImage \<lparr>width = 100, height = 100, xpos = 50, ypos = 50\<rparr> 1 0 0 200 200
   \<and> imageCropToViewportPx
        (viewportCropToNaturalPx \<lparr>width = 100, height = 100, xpos = 50, ypos = 50\<rparr>
           1 0 0 200 200)
        200 200 1 0 0 450 350
      = \<lparr>width = 100, height = 100, xpos = 50, ypos = 50, unit = Px\<rparr>"
proof -
  have w: "withinRenderedImage \<lparr>width = 100, height = 100, xpos = 50, ypos = 50\<rparr>
             1 0 0 200 200"
    by (simp add: withinRenderedImage_def)
  show ?thesis
    using w crop_roundtrip [where scl = 1 and tx = 0 and ty = 0 and naturalW = 200
        and naturalH = 200 and viewportW = 450 and viewportH = 350
        and r = "\<lparr>width = 100, height = 100, xpos = 50, ypos = 50\<rparr>"]
    by simp
qed

section \<open>Default crop rectangle\<close>

text \<open>
  What the crop-init effect creates when it runs in crop-editing mode (pan/zoom active,
  cropping active, positive viewport) with no existing crop rectangle, no usable
  host-supplied default crop and no usable completed crop: \<open>defaultViewportCrop200\<close> of
  the viewport, a centred \<open>"px"\<close> rectangle of width \<open>min 200 viewportW\<close> and height
  \<open>min 200 viewportH\<close>, which is the whole viewport exactly when both viewport
  dimensions are \<open>\<le> 200\<close>.
\<close>

lemma cropInitEffect_default:
  assumes "usePanZoom" and "isCroppingActive"
    and "0 < width viewportSize" and "0 < height viewportSize"
    and "crop st = None"
    and "defaultCrop = None \<or> width (the defaultCrop) \<le> 0 \<or> height (the defaultCrop) \<le> 0"
    and "completedCrop st = None \<or> width (the (completedCrop st)) \<le> 0
           \<or> height (the (completedCrop st)) \<le> 0"
  shows "crop (cropInitEffect usePanZoom isCroppingActive viewportSize defaultCrop
                 naturalSize t st)
           = Some (defaultViewportCrop200 (width viewportSize) (height viewportSize))"
  using assms by (auto simp: cropInitEffect_def Let_def)

lemma defaultViewportCrop200_shape:
  "unit (defaultViewportCrop200 viewportW viewportH) = Px
   \<and> width (defaultViewportCrop200 viewportW viewportH) = min 200 viewportW
   \<and> height (defaultViewportCrop200 viewportW viewportH) = min 200 viewportH
   \<and> xpos (defaultViewportCrop200 viewportW viewportH) + min 200 viewportW / 2
       = viewportW / 2
   \<and> ypos (defaultViewportCrop200 viewportW viewportH) + min 200 viewportH / 2
       = viewportH / 2"
  by (simp add: defaultViewportCrop200_def Let_def field_simps)

lemma defaultViewportCrop200_full_iff:
  "defaultViewportCrop200 viewportW viewportH
     = \<lparr>width = viewportW, height = viewportH, xpos = 0, ypos = 0, unit = Px\<rparr>
   \<longleftrightarrow> viewportW \<le> 200 \<and> viewportH \<le> 200"
  by (auto simp: defaultViewportCrop200_def Let_def min_def)



section \<open>Published zoom multiplier\<close>

text \<open>
  C9. When the transform is ready and a handler is set, the zoom-multiplier effect
  publishes \<open>scale / baseScale\<close> clamped to \<open>[0.4, 3.0]\<close>, where \<open>baseScale\<close> is the
  base scale of the current scale limits; readiness makes that base scale positive. The
  effect depends on the scale and on the four dimensions only, so this is the value
  published after a change from any source.
\<close>

theorem zoom_multiplier_published:
  assumes "isTransformReady naturalSize viewportSize" and "hasHandler"
  shows "0 < baseScale (getScaleLimits (width viewportSize) (height viewportSize)
                 (width naturalSize) (height naturalSize))
       \<and> zoomMultiplierSync hasHandler viewportSize naturalSize t
         = Some (max 0.4 (min 3.0
             (scale t / baseScale (getScaleLimits (width viewportSize) (height viewportSize)
                 (width naturalSize) (height naturalSize)))))"
proof -
  have "0 < max (width viewportSize / width naturalSize)
              (height viewportSize / height naturalSize)"
    using assms by (simp add: isTransformReady_def less_max_iff_disj)
  then have "0 < baseScale (getScaleLimits (width viewportSize) (height viewportSize)
                 (width naturalSize) (height naturalSize))"
    using assms by (simp add: isTransformReady_def getScaleLimits_def getCoverScale_def Let_def)
  then show ?thesis
    using assms
    by (simp add: zoomMultiplierSync_def Let_def ZOOM_MULTIPLIER_MIN_def ZOOM_MULTIPLIER_MAX_def)
qed

theorem zoom_multiplier_published_witness:
  "isTransformReady \<lparr>width = 1920, height = 1080\<rparr> \<lparr>width = 450, height = 350\<rparr>
   \<and> zoomMultiplierSync True \<lparr>width = 450, height = 350\<rparr> \<lparr>width = 1920, height = 1080\<rparr>
        \<lparr>translateX = 0, translateY = 0, scale = 35 / 54\<rparr>
      = Some (max 0.4 (min 3.0
          (scale \<lparr>translateX = 0, translateY = 0, scale = 35 / 54\<rparr>
             / baseScale (getScaleLimits 450 350 1920 1080))))
   \<and> max 0.4 (min 3.0
          (scale \<lparr>translateX = 0, translateY = 0, scale = 35 / 54\<rparr>
             / baseScale (getScaleLimits 450 350 1920 1080))) = (2::real)"
proof -
  have r: "isTransformReady \<lparr>width = 1920, height = 1080\<rparr> \<lparr>width = 450, height = 350\<rparr>"
    by (simp add: isTransformReady_def)
  have v: "max 0.4 (min 3.0
          (scale \<lparr>translateX = 0, translateY = 0, scale = 35 / 54\<rparr>
             / baseScale (getScaleLimits 450 350 1920 1080))) = (2::real)"
    by (simp add: getScaleLimits_def getCoverScale_def Let_def)
  show ?thesis
    using r v zoom_multiplier_published [where hasHandler = True
        and naturalSize = "\<lparr>width = 1920, height = 1080\<rparr>"
        and viewportSize = "\<lparr>width = 450, height = 350\<rparr>"
        and t = "\<lparr>translateX = 0, translateY = 0, scale = 35 / 54\<rparr>"]
    by simp
qed

section \<open>Scenario: initial cover fit\<close>

text \<open>
  C2 (amended). For a viewport of \<open>450 \<times> 350\<close> and an image of \<open>1920 \<times> 1080\<close> the
  initial cover fit yields \<open>baseScale = max (450 / 1920) (350 / 1080) = 35 / 108\<close>, about
  \<open>0.3241\<close>; the centring translation has \<open>translateX = - 775 / 9\<close>, about \<open>- 86.1\<close>
  (the scaled image is wider than the viewport and centred horizontally), and
  \<open>translateY = 0\<close> (the scaled image is exactly as tall as the viewport).
\<close>

theorem initial_cover_fit:
  "getCoverScale 450 350 1920 1080 = max (450 / 1920) (350 / 1080)
   \<and> getCoverScale 450 350 1920 1080 = 35 / 108
   \<and> \<bar>getCoverScale 450 350 1920 1080 - 0.3241\<bar> < 0.0001
   \<and> getCenterTranslation 450 350 1920 1080 (getCoverScale 450 350 1920 1080)
       = \<lparr>translateX = - 775 / 9, translateY = 0\<rparr>
   \<and> scale (transform (fitEffect True 450 350 1920 1080 initialStore)) = 35 / 108
   \<and> translateX (transform (fitEffect True 450 350 1920 1080 initialStore)) = - 775 / 9
   \<and> translateY (transform (fitEffect True 450 350 1920 1080 initialStore)) = 0"
  by (simp add: getCoverScale_def getCenterTranslation_def fitEffect_def initialStore_def
      Let_def)

theorem initial_cover_fit_witness:
  "translateX (transform (fitEffect True 450 350 1920 1080 initialStore)) < 0
   \<and> translateY (transform (fitEffect True 450 350 1920 1080 initialStore)) = 0
   \<and> scale (transform (fitEffect True 450 350 1920 1080 initialStore))
       = getCoverScale 450 350 1920 1080"
  using initial_cover_fit by simp

text \<open>
  The claim as stated fails: \<open>translateY\<close> is not negative and \<open>translateX\<close> is not
  within \<open>1\<close> of \<open>0\<close>.
\<close>

theorem initial_cover_fit_counterexample:
  "\<not> (translateY (getCenterTranslation 450 350 1920 1080
                      (getCoverScale 450 350 1920 1080)) < 0
      \<and> \<bar>translateX (getCenterTranslation 450 350 1920 1080
                        (getCoverScale 450 350 1920 1080))\<bar> < 1)"
  by (simp add: getCoverScale_def getCenterTranslation_def Let_def)

end
